theory Spec2Isabelle
  imports Main
begin

section \<open>HoroQuiz: the web client and the storage schema\<close>

subsection \<open>GameCanvas: the bridge from the embedded mini-game to the question trigger\<close>

text \<open>
  \<^verbatim>\<open>GameCanvas.tsx\<close>: \<^verbatim>\<open>Props['mode']\<close> is \<^verbatim>\<open>'platformer' | 'shooter'\<close>, the trigger's
  argument is \<^verbatim>\<open>'death' | 'level_up'\<close>. The data of a \<^verbatim>\<open>message\<close> event is
  \<^verbatim>\<open>{ type?: string; source?: string; reason?: string } | undefined\<close>: an absent field and
  a falsy \<^verbatim>\<open>data\<close> are \<open>None\<close>.
\<close>

datatype canvas_mode = Platformer | Shooter

datatype trigger_reason = Death | LevelUp

record game_msg =
  msg_type :: "string option"
  msg_source :: "string option"
  msg_reason :: "string option"

text \<open>
  The listener \<^verbatim>\<open>onMessage\<close>. \<open>now\<close> is the reading of \<^verbatim>\<open>Date.now()\<close> (integer
  milliseconds), \<open>lastEmit\<close> the content of \<^verbatim>\<open>lastEmitRef.current\<close>. The result is the
  new content of the ref and the argument \<^verbatim>\<open>onTrigger\<close> was called with, if it was called.
\<close>

definition onMessage ::
  "canvas_mode \<Rightarrow> int \<Rightarrow> game_msg option \<Rightarrow> int \<Rightarrow> int \<times> trigger_reason option" where
  "onMessage m now data lastEmit =
     (case data of
        None \<Rightarrow> (lastEmit, None)
      | Some d \<Rightarrow>
          if msg_type d \<noteq> Some ''quiz_game_event'' then (lastEmit, None)
          else if now - lastEmit < 900 then (lastEmit, None)
          else (now,
                if m = Platformer \<and> msg_reason d = Some ''death'' then Some Death
                else if m = Shooter \<and> msg_reason d = Some ''death'' then Some Death
                else None))"

text \<open>
  The listener over a sequence of \<^verbatim>\<open>message\<close> events, each with the clock reading at
  which it is handled: the result lists, event by event, the call of \<^verbatim>\<open>onTrigger\<close> it
  made. The ref starts at \<^verbatim>\<open>useRef(0)\<close>.
\<close>

fun canvas_run ::
  "canvas_mode \<Rightarrow> int \<Rightarrow> (int \<times> game_msg option) list \<Rightarrow> trigger_reason option list" where
  "canvas_run m lastEmit [] = []"
| "canvas_run m lastEmit ((now, data) # evs) =
     (case onMessage m now data lastEmit of
        (lastEmit', out) \<Rightarrow> out # canvas_run m lastEmit' evs)"

definition canvas_triggers ::
  "canvas_mode \<Rightarrow> (int \<times> game_msg option) list \<Rightarrow> trigger_reason option list" where
  "canvas_triggers m evs = canvas_run m 0 evs"

definition death_msg :: game_msg where
  "death_msg = \<lparr>msg_type = Some ''quiz_game_event'', msg_source = None, msg_reason = Some ''death''\<rparr>"

definition level_up_msg :: game_msg where
  "level_up_msg = \<lparr>msg_type = Some ''quiz_game_event'', msg_source = None, msg_reason = Some ''level_up''\<rparr>"

subsection \<open>Shared data: JSON values, questions, the WebSocket\<close>

text \<open>
  A JSON value as \<^verbatim>\<open>JSON.parse\<close> returns it and \<^verbatim>\<open>JSON.stringify\<close> takes it; an
  object keeps its properties in insertion order.
\<close>

datatype json =
    JNull
  | JBool bool
  | JNum int
  | JStr string
  | JArr "json list"
  | JObj "(string \<times> json) list"

text \<open>\<^verbatim>\<open>types.ts\<close>: \<^verbatim>\<open>QuestionType\<close>, \<^verbatim>\<open>QuizOption\<close>, \<^verbatim>\<open>AnswerKey\<close>, \<^verbatim>\<open>Question\<close>.\<close>

datatype QuestionType = Open | Single | Multi

record QuizOption =
  opt_id :: string
  opt_text :: string

datatype AnswerKey =
    KeyText string
  | KeyOptionId string
  | KeyOptionIds "string list"

record Question =
  q_id :: string
  q_type :: QuestionType
  q_prompt :: string
  q_options :: "QuizOption list option"
  q_answer :: AnswerKey

text \<open>
  A browser \<^verbatim>\<open>WebSocket\<close> as the client uses it: its \<^verbatim>\<open>readyState\<close> and the objects
  handed to \<^verbatim>\<open>socket.send(JSON.stringify(...))\<close>, oldest first.
\<close>

datatype ready_state = CONNECTING | OPEN | CLOSING | CLOSED



subsection \<open>StudentPlayPage: the question trigger\<close>

text \<open>
  \<^verbatim>\<open>App.tsx\<close>, \<^verbatim>\<open>StudentPlayPage\<close>. The page's mode is
  \<^verbatim>\<open>'platformer' | 'shooter' | 'classic'\<close>; the canvas is rendered, with
  \<^verbatim>\<open>onTrigger={triggerQuestion}\<close>, only when the mode is not \<^verbatim>\<open>classic\<close>. The status
  line holds one of the page's fixed messages, named here by what they say.
\<close>

datatype play_mode = Game canvas_mode | Classic

datatype status_msg =
    ClassicStarted
  | GameStarted
  | CorrectMoveOn
  | WrongMoveOn
  | CorrectContinueGame
  | WrongNextQuestion
  | AnswerCorrectlyToContinue







subsection \<open>connectRoom: the socket's message callback\<close>

text \<open>
  A call either returns or throws; both leave a state behind. \<^verbatim>\<open>JSON.parse\<close> is the
  platform's: it is a parameter \<open>json_parse\<close>, \<open>None\<close> where it throws \<^verbatim>\<open>SyntaxError\<close>.
  The page's handler \<open>handler\<close> is a parameter too; it works on the page's state and may
  itself throw.
\<close>

datatype 'a completion = Returned 'a | Threw 'a

text \<open>
  The body of the \<^verbatim>\<open>try\<close> block, \<^verbatim>\<open>onMessage(JSON.parse(event.data) as WsEnvelope)\<close>:
  the argument is evaluated first, and the handler is called with the parsed value (the
  cast is erased).
\<close>

definition onmessage_try ::
  "(string \<Rightarrow> json option) \<Rightarrow> (json \<Rightarrow> 's \<Rightarrow> 's completion) \<Rightarrow> string \<Rightarrow> 's \<Rightarrow> 's completion" where
  "onmessage_try json_parse handler data st =
     (case json_parse data of
        None \<Rightarrow> Threw st
      | Some v \<Rightarrow> handler v st)"

text \<open>\<^verbatim>\<open>socket.onmessage\<close>: the \<^verbatim>\<open>try\<close> block under \<^verbatim>\<open>catch { /* ignore malformed */ }\<close>.\<close>

definition socket_onmessage ::
  "(string \<Rightarrow> json option) \<Rightarrow> (json \<Rightarrow> 's \<Rightarrow> 's completion) \<Rightarrow> string \<Rightarrow> 's \<Rightarrow> 's completion" where
  "socket_onmessage json_parse handler data st =
     (case onmessage_try json_parse handler data st of
        Returned st' \<Rightarrow> Returned st'
      | Threw st' \<Rightarrow> Returned st')"

text \<open>
  The frames of a connection, in order of arrival. An exception that escaped the callback
  would show as \<open>Threw\<close>.
\<close>

fun socket_receive ::
  "(string \<Rightarrow> json option) \<Rightarrow> (json \<Rightarrow> 's \<Rightarrow> 's completion) \<Rightarrow> string list \<Rightarrow> 's
     \<Rightarrow> 's completion" where
  "socket_receive json_parse handler [] st = Returned st"
| "socket_receive json_parse handler (data # frames) st =
     (case socket_onmessage json_parse handler data st of
        Returned st' \<Rightarrow> socket_receive json_parse handler frames st'
      | Threw st' \<Rightarrow> Threw st')"

text \<open>
  A small stand-in for \<^verbatim>\<open>JSON.parse\<close>, and a handler that writes down every value it is
  called with and throws on anything but an object, to run the callback on concrete
  frames.
\<close>

definition sample_parse :: "string \<Rightarrow> json option" where
  "sample_parse data =
     (if data = ''{}'' then Some (JObj [])
      else if data = ''null'' then Some JNull
      else None)"

definition sample_handler :: "json \<Rightarrow> json list \<Rightarrow> json list completion" where
  "sample_handler v seen = (case v of JObj ps \<Rightarrow> Returned (seen @ [v]) | _ \<Rightarrow> Threw (seen @ [v]))"

subsection \<open>The outbound envelope\<close>





subsection \<open>QuestionCard: the student's answer card\<close>

text \<open>
  \<^verbatim>\<open>QuestionCard.tsx\<close>. The component's state is the three \<^verbatim>\<open>useState\<close> cells; it
  starts at \<^verbatim>\<open>''\<close>, \<^verbatim>\<open>''\<close>, \<^verbatim>\<open>[]\<close> each time the card is mounted for a question.
\<close>

record card_state =
  cs_open :: string
  cs_single :: string
  cs_multi :: "string list"

definition card_init :: card_state where
  "card_init = \<lparr>cs_open = [], cs_single = [], cs_multi = []\<rparr>"

text \<open>\<^verbatim>\<open>question.options ?? []\<close>\<close>

definition card_options :: "Question \<Rightarrow> QuizOption list" where
  "card_options q = (case q_options q of None \<Rightarrow> [] | Some os \<Rightarrow> os)"

text \<open>
  The checkbox's \<^verbatim>\<open>onChange\<close>, with \<open>checked\<close> for \<^verbatim>\<open>e.target.checked\<close> and \<open>oid\<close>
  for \<^verbatim>\<open>o.id\<close>.
\<close>

definition multi_onChange :: "bool \<Rightarrow> string \<Rightarrow> string list \<Rightarrow> string list" where
  "multi_onChange checked oid prev =
     (if checked then prev @ [oid] else filter (\<lambda>v. v \<noteq> oid) prev)"

text \<open>
  What the student can do to a mounted card: type into the text input (rendered for
  \<^verbatim>\<open>open\<close>), pick the radio button of the \<open>i\<close>-th option (rendered for \<^verbatim>\<open>single\<close>),
  click the checkbox of the \<open>i\<close>-th option (rendered for \<^verbatim>\<open>multi\<close>). A checkbox is
  controlled: it shows \<^verbatim>\<open>multi.includes(o.id)\<close>, and a click reports the opposite of
  what it shows. An action on a control the card does not render changes nothing.
\<close>

datatype card_action = TypeOpen string | PickSingle nat | ClickMulti nat

fun card_step :: "Question \<Rightarrow> card_state \<Rightarrow> card_action \<Rightarrow> card_state" where
  "card_step q st (TypeOpen v) =
     (if q_type q = Open then st\<lparr>cs_open := v\<rparr> else st)"
| "card_step q st (PickSingle i) =
     (if q_type q = Single \<and> i < length (card_options q)
      then st\<lparr>cs_single := opt_id (card_options q ! i)\<rparr> else st)"
| "card_step q st (ClickMulti i) =
     (if q_type q = Multi \<and> i < length (card_options q)
      then st\<lparr>cs_multi :=
                 multi_onChange (opt_id (card_options q ! i) \<notin> set (cs_multi st))
                   (opt_id (card_options q ! i)) (cs_multi st)\<rparr>
      else st)"

text \<open>
  A mounted card over the questions it shows in turn, each with what the student does
  while it is shown. The page renders the card without a \<^verbatim>\<open>key\<close>, and its
  \<^verbatim>\<open>question_push\<close> handler replaces the question whether or not one is shown
  (\<^verbatim>\<open>setQuestion\<close>): the card then shows the new question with the cells it has. Only
  unmounting the card (the page does so when an answer is submitted) gives the next card
  fresh cells.
\<close>

definition card_session :: "(Question \<times> card_action list) list \<Rightarrow> card_state" where
  "card_session shown = foldl (\<lambda>st (q, acts). foldl (card_step q) st acts) card_init shown"

text \<open>
  The argument of \<^verbatim>\<open>onSubmit\<close>: each type renders its own button, which submits its
  own cell.
\<close>

definition card_submit :: "Question \<Rightarrow> card_state \<Rightarrow> (string \<times> json) list" where
  "card_submit q st =
     (case q_type q of
        Open \<Rightarrow> [(''text'', JStr (cs_open st))]
      | Single \<Rightarrow> [(''optionId'', JStr (cs_single st))]
      | Multi \<Rightarrow> [(''optionIds'', JArr (map JStr (cs_multi st)))])"

definition sample_next_question :: Question where
  "sample_next_question =
     \<lparr>q_id = ''q2'', q_type = Multi, q_prompt = ''Pick the even numbers'',
      q_options = Some [\<lparr>opt_id = ''b1'', opt_text = ''6''\<rparr>,
                        \<lparr>opt_id = ''b2'', opt_text = ''7''\<rparr>],
      q_answer = KeyOptionIds [''b1'']\<rparr>"

definition sample_multi_question :: Question where
  "sample_multi_question =
     \<lparr>q_id = ''q1'', q_type = Multi, q_prompt = ''Pick the primes'',
      q_options = Some [\<lparr>opt_id = ''o1'', opt_text = ''2''\<rparr>,
                        \<lparr>opt_id = ''o2'', opt_text = ''4''\<rparr>,
                        \<lparr>opt_id = ''o3'', opt_text = ''5''\<rparr>],
      q_answer = KeyOptionIds [''o1'', ''o3'']\<rparr>"

subsection \<open>The quiz builder: from drafts to the quiz payload\<close>












subsection \<open>The dashboard: creating a session\<close>

text \<open>
  \<^verbatim>\<open>api.ts\<close>, \<^verbatim>\<open>createSession\<close>: the body of \<^verbatim>\<open>POST /sessions\<close>. Its \<^verbatim>\<open>gameMode\<close> has
  the type \<^verbatim>\<open>'platformer' | 'shooter' | 'classic'\<close>, the type of the play page's mode.
\<close>

fun mode_text :: "play_mode \<Rightarrow> string" where
  "mode_text (Game Platformer) = ''platformer''"
| "mode_text (Game Shooter) = ''shooter''"
| "mode_text Classic = ''classic''"

definition createSession :: "int \<Rightarrow> play_mode \<Rightarrow> json" where
  "createSession quizId gameMode =
     JObj [(''quizId'', JNum quizId), (''gameMode'', JStr (mode_text gameMode))]"

text \<open>
  \<^verbatim>\<open>App.tsx\<close>, \<^verbatim>\<open>DashboardPage.startSession\<close>: the mode is the one selected for the quiz,
  \<^verbatim>\<open>classic\<close> when none was (\<^verbatim>\<open>modeByQuiz[quizId] ?? 'classic'\<close>).
\<close>

definition startSession_mode :: "(int \<rightharpoonup> play_mode) \<Rightarrow> int \<Rightarrow> play_mode" where
  "startSession_mode modeByQuiz quizId =
     (case modeByQuiz quizId of None \<Rightarrow> Classic | Some mode \<Rightarrow> mode)"

definition startSession :: "(int \<rightharpoonup> play_mode) \<Rightarrow> int \<Rightarrow> json" where
  "startSession modeByQuiz quizId = createSession quizId (startSession_mode modeByQuiz quizId)"

subsection \<open>The storage schema\<close>

text \<open>
  \<^verbatim>\<open>backend/migrations/20260226180000_init.sql\<close>, the tables modelled here. A
  table is the list of its rows; a nullable column is an \<open>option\<close>; \<^verbatim>\<open>DATETIME(3)\<close> is a
  count of milliseconds, \<^verbatim>\<open>DECIMAL(5,2)\<close> a count of hundredths. A statement names every
  column of its row (a default is filled in by the caller). The server runs in strict
  mode, so a value outside a column's type is an error.
\<close>

datatype sqlval = SqlNull | SqlInt int | SqlStr string

datatype sql_error = DataError string | DuplicateEntry string | ForeignKeyFails string

record question_row =
  qq_id :: int
  qq_quiz_id :: int
  qq_external_id :: string
  qq_q_type :: string
  qq_prompt :: string
  qq_position :: int

record quiz_answer_row =
  qa_id :: int
  qa_question_id :: int
  qa_open_text :: "string option"
  qa_single_option_external_id :: "string option"
  qa_multi_option_external_ids :: "json option"

record session_row =
  gs_id :: int
  gs_room_code :: string
  gs_join_token :: string
  gs_quiz_id :: int
  gs_teacher_id :: int
  gs_status :: string
  gs_game_mode :: string
  gs_started_at :: "int option"
  gs_ended_at :: "int option"
  gs_created_at :: int

record participant_row =
  sp_id :: int
  sp_session_id :: int
  sp_nickname :: string
  sp_join_state :: string
  sp_connected_at :: int
  sp_left_at :: "int option"

record answer_row =
  sa_id :: int
  sa_session_id :: int
  sa_participant_id :: int
  sa_question_id :: int
  sa_attempt_no :: int
  sa_answer_payload :: json
  sa_is_correct :: bool
  sa_answered_at :: int

record aggregate_row =
  ag_id :: int
  ag_session_id :: int
  ag_participant_id :: "int option"
  ag_correct_count :: int
  ag_wrong_count :: int
  ag_correct_pct :: int
  ag_updated_at :: int

record db =
  quiz_questions :: "question_row list"
  quiz_answers :: "quiz_answer_row list"
  game_sessions :: "session_row list"
  session_participants :: "participant_row list"
  session_answers :: "answer_row list"
  session_stats_aggregate :: "aggregate_row list"

definition empty_db :: db where
  "empty_db = \<lparr>quiz_questions = [], quiz_answers = [], game_sessions = [],
     session_participants = [], session_answers = [], session_stats_aggregate = []\<rparr>"

text \<open>Column types: \<^verbatim>\<open>INT\<close>, \<^verbatim>\<open>BIGINT\<close>, \<^verbatim>\<open>DECIMAL(5,2)\<close>, \<^verbatim>\<open>TEXT\<close>.\<close>

definition sql_int :: "int \<Rightarrow> bool" where
  "sql_int i = (- 2147483648 \<le> i \<and> i \<le> 2147483647)"

definition sql_bigint :: "int \<Rightarrow> bool" where
  "sql_bigint i = (- 9223372036854775808 \<le> i \<and> i \<le> 9223372036854775807)"

definition sql_decimal_5_2 :: "int \<Rightarrow> bool" where
  "sql_decimal_5_2 h = (- 99999 \<le> h \<and> h \<le> 99999)"

definition sql_text :: "string \<Rightarrow> bool" where
  "sql_text s = (length s \<le> 65535)"

definition sqlval_of_int :: "int option \<Rightarrow> sqlval" where
  "sqlval_of_int v = (case v of None \<Rightarrow> SqlNull | Some i \<Rightarrow> SqlInt i)"

text \<open>
  The columns of each table, with whether the row's value fits the column (the
  \<^verbatim>\<open>NOT NULL\<close> columns cannot hold \<open>None\<close> by their type). Strings compare as they are
  written: a collation that identifies more strings only rejects more rows.
\<close>

definition question_columns :: "question_row \<Rightarrow> (string \<times> bool) list" where
  "question_columns r =
     [(''id'', sql_bigint (qq_id r)),
      (''quiz_id'', sql_bigint (qq_quiz_id r)),
      (''external_id'', length (qq_external_id r) \<le> 64),
      (''q_type'', qq_q_type r \<in> set [''open'', ''single'', ''multi'']),
      (''prompt'', sql_text (qq_prompt r)),
      (''position'', sql_int (qq_position r))]"

definition quiz_answer_columns :: "quiz_answer_row \<Rightarrow> (string \<times> bool) list" where
  "quiz_answer_columns r =
     [(''id'', sql_bigint (qa_id r)),
      (''question_id'', sql_bigint (qa_question_id r)),
      (''open_text'', (case qa_open_text r of None \<Rightarrow> True | Some t \<Rightarrow> sql_text t)),
      (''single_option_external_id'',
         (case qa_single_option_external_id r of None \<Rightarrow> True | Some s \<Rightarrow> length s \<le> 64))]"

definition session_columns :: "session_row \<Rightarrow> (string \<times> bool) list" where
  "session_columns r =
     [(''id'', sql_bigint (gs_id r)),
      (''room_code'', length (gs_room_code r) \<le> 12),
      (''join_token'', length (gs_join_token r) \<le> 36),
      (''quiz_id'', sql_bigint (gs_quiz_id r)),
      (''teacher_id'', sql_bigint (gs_teacher_id r)),
      (''status'', gs_status r \<in> set [''waiting'', ''active'', ''finished'']),
      (''game_mode'', gs_game_mode r \<in> set [''platformer'', ''shooter'', ''tycoon''])]"

definition participant_columns :: "participant_row \<Rightarrow> (string \<times> bool) list" where
  "participant_columns r =
     [(''id'', sql_bigint (sp_id r)),
      (''session_id'', sql_bigint (sp_session_id r)),
      (''nickname'', length (sp_nickname r) \<le> 64),
      (''join_state'', sp_join_state r \<in> set [''waiting'', ''playing'', ''left''])]"

definition answer_columns :: "answer_row \<Rightarrow> (string \<times> bool) list" where
  "answer_columns r =
     [(''id'', sql_bigint (sa_id r)),
      (''session_id'', sql_bigint (sa_session_id r)),
      (''participant_id'', sql_bigint (sa_participant_id r)),
      (''question_id'', sql_bigint (sa_question_id r)),
      (''attempt_no'', sql_int (sa_attempt_no r))]"

definition aggregate_columns :: "aggregate_row \<Rightarrow> (string \<times> bool) list" where
  "aggregate_columns r =
     [(''id'', sql_bigint (ag_id r)),
      (''session_id'', sql_bigint (ag_session_id r)),
      (''participant_id'',
         (case ag_participant_id r of None \<Rightarrow> True | Some p \<Rightarrow> sql_bigint p)),
      (''correct_count'', sql_int (ag_correct_count r)),
      (''wrong_count'', sql_int (ag_wrong_count r)),
      (''correct_pct'', sql_decimal_5_2 (ag_correct_pct r))]"

text \<open>
  The unique indexes of each table, the primary key first, each with the key it takes
  from a row.
\<close>

definition question_keys :: "(string \<times> (question_row \<Rightarrow> sqlval list)) list" where
  "question_keys =
     [(''PRIMARY'', \<lambda>r. [SqlInt (qq_id r)]),
      (''uk_quiz_questions_external'', \<lambda>r. [SqlInt (qq_quiz_id r), SqlStr (qq_external_id r)])]"

definition quiz_answer_keys :: "(string \<times> (quiz_answer_row \<Rightarrow> sqlval list)) list" where
  "quiz_answer_keys =
     [(''PRIMARY'', \<lambda>r. [SqlInt (qa_id r)]),
      (''question_id'', \<lambda>r. [SqlInt (qa_question_id r)])]"

definition session_keys :: "(string \<times> (session_row \<Rightarrow> sqlval list)) list" where
  "session_keys =
     [(''PRIMARY'', \<lambda>r. [SqlInt (gs_id r)]),
      (''room_code'', \<lambda>r. [SqlStr (gs_room_code r)]),
      (''join_token'', \<lambda>r. [SqlStr (gs_join_token r)])]"

definition participant_uk :: "participant_row \<Rightarrow> sqlval list" where
  "participant_uk r = [SqlInt (sp_session_id r), SqlStr (sp_nickname r)]"

definition participant_keys :: "(string \<times> (participant_row \<Rightarrow> sqlval list)) list" where
  "participant_keys =
     [(''PRIMARY'', \<lambda>r. [SqlInt (sp_id r)]),
      (''uk_session_participants'', participant_uk)]"

definition answer_uk :: "answer_row \<Rightarrow> sqlval list" where
  "answer_uk r = [SqlInt (sa_session_id r), SqlInt (sa_participant_id r),
                  SqlInt (sa_question_id r), SqlInt (sa_attempt_no r)]"

definition answer_keys :: "(string \<times> (answer_row \<Rightarrow> sqlval list)) list" where
  "answer_keys =
     [(''PRIMARY'', \<lambda>r. [SqlInt (sa_id r)]),
      (''uk_session_answers_attempt'', answer_uk)]"

definition aggregate_uk :: "aggregate_row \<Rightarrow> sqlval list" where
  "aggregate_uk r = [SqlInt (ag_session_id r), sqlval_of_int (ag_participant_id r)]"

definition aggregate_keys :: "(string \<times> (aggregate_row \<Rightarrow> sqlval list)) list" where
  "aggregate_keys =
     [(''PRIMARY'', \<lambda>r. [SqlInt (ag_id r)]),
      (''uk_session_stats_aggregate'', aggregate_uk)]"

text \<open>
  A unique index compares keys as SQL compares values: \<^verbatim>\<open>NULL\<close> is equal to nothing, so
  two keys collide when they are equal and hold no \<^verbatim>\<open>NULL\<close>.
\<close>

definition uk_conflict :: "sqlval list \<Rightarrow> sqlval list \<Rightarrow> bool" where
  "uk_conflict k k' = (SqlNull \<notin> set k \<and> k = k')"

definition uk_free :: "('r \<Rightarrow> sqlval list) \<Rightarrow> 'r list \<Rightarrow> 'r \<Rightarrow> bool" where
  "uk_free key rows r = (\<not> list_ex (\<lambda>r'. uk_conflict (key r') (key r)) rows)"

text \<open>
  Putting a row beside the rows \<open>others\<close> of its table: the column types, then the unique
  indexes, then the foreign keys (each given with whether its parent row exists). The
  first failure is the statement's error.
\<close>

definition put_row ::
  "(string \<times> bool) list \<Rightarrow> (string \<times> ('r \<Rightarrow> sqlval list)) list \<Rightarrow> (string \<times> bool) list
     \<Rightarrow> 'r list \<Rightarrow> 'r \<Rightarrow> sql_error + 'r list" where
  "put_row columns keys fks others r =
     (case find (\<lambda>(name, fits). \<not> fits) columns of
        Some (name, _) \<Rightarrow> Inl (DataError name)
      | None \<Rightarrow>
          (case find (\<lambda>(name, key). \<not> uk_free key others r) keys of
             Some (name, _) \<Rightarrow> Inl (DuplicateEntry name)
           | None \<Rightarrow>
               (case find (\<lambda>(name, parent). \<not> parent) fks of
                  Some (name, _) \<Rightarrow> Inl (ForeignKeyFails name)
                | None \<Rightarrow> Inr (others @ [r]))))"

text \<open>
  The foreign keys between the tables modelled (those to \<^verbatim>\<open>quizzes\<close> and
  \<^verbatim>\<open>teachers\<close> are not checked: any quiz and teacher id counts as present).
\<close>

definition quiz_answer_fks :: "db \<Rightarrow> quiz_answer_row \<Rightarrow> (string \<times> bool) list" where
  "quiz_answer_fks d r =
     [(''fk_quiz_answers_question'', qa_question_id r \<in> qq_id ` set (quiz_questions d))]"

definition participant_fks :: "db \<Rightarrow> participant_row \<Rightarrow> (string \<times> bool) list" where
  "participant_fks d r =
     [(''fk_session_participants_session'', sp_session_id r \<in> gs_id ` set (game_sessions d))]"

definition answer_fks :: "db \<Rightarrow> answer_row \<Rightarrow> (string \<times> bool) list" where
  "answer_fks d r =
     [(''fk_session_answers_session'', sa_session_id r \<in> gs_id ` set (game_sessions d)),
      (''fk_session_answers_participant'',
         sa_participant_id r \<in> sp_id ` set (session_participants d)),
      (''fk_session_answers_question'', sa_question_id r \<in> qq_id ` set (quiz_questions d))]"

definition aggregate_fks :: "db \<Rightarrow> aggregate_row \<Rightarrow> (string \<times> bool) list" where
  "aggregate_fks d r =
     [(''fk_session_stats_aggregate_session'',
         ag_session_id r \<in> gs_id ` set (game_sessions d)),
      (''fk_session_stats_aggregate_participant'',
         (case ag_participant_id r of
            None \<Rightarrow> True
          | Some p \<Rightarrow> p \<in> sp_id ` set (session_participants d)))]"

text \<open>
  The statements. \<^verbatim>\<open>INSERT\<close> puts the row beside all rows of its table. \<^verbatim>\<open>UPDATE\<close>
  gives the row with the new row's id its other columns: the new row is put beside the
  rest of the table, and nothing happens when no row has that id. \<^verbatim>\<open>DELETE\<close> removes
  the row of an id and, by \<^verbatim>\<open>ON DELETE CASCADE\<close>, the rows that refer to it (with a
  session go its participants, and with them their rows).
\<close>

datatype sql_stmt =
    InsertQuestion question_row
  | InsertQuizAnswer quiz_answer_row
  | InsertSession session_row
  | InsertParticipant participant_row
  | InsertAnswer answer_row
  | InsertAggregate aggregate_row
  | UpdateQuestion question_row
  | UpdateQuizAnswer quiz_answer_row
  | UpdateSession session_row
  | UpdateParticipant participant_row
  | UpdateAnswer answer_row
  | UpdateAggregate aggregate_row
  | DeleteQuestion int
  | DeleteQuizAnswer int
  | DeleteSession int
  | DeleteParticipant int
  | DeleteAnswer int
  | DeleteAggregate int

definition store ::
  "('r list \<Rightarrow> db) \<Rightarrow> sql_error + 'r list \<Rightarrow> sql_error + db" where
  "store upd res = (case res of Inl e \<Rightarrow> Inl e | Inr rows \<Rightarrow> Inr (upd rows))"

definition others_of :: "('r \<Rightarrow> int) \<Rightarrow> int \<Rightarrow> 'r list \<Rightarrow> 'r list" where
  "others_of ident i rows = filter (\<lambda>x. ident x \<noteq> i) rows"

fun exec :: "sql_stmt \<Rightarrow> db \<Rightarrow> sql_error + db" where
  "exec (InsertQuestion r) d =
     store (\<lambda>rows. d\<lparr>quiz_questions := rows\<rparr>)
       (put_row (question_columns r) question_keys [] (quiz_questions d) r)"
| "exec (InsertQuizAnswer r) d =
     store (\<lambda>rows. d\<lparr>quiz_answers := rows\<rparr>)
       (put_row (quiz_answer_columns r) quiz_answer_keys (quiz_answer_fks d r) (quiz_answers d) r)"
| "exec (InsertSession r) d =
     store (\<lambda>rows. d\<lparr>game_sessions := rows\<rparr>)
       (put_row (session_columns r) session_keys [] (game_sessions d) r)"
| "exec (InsertParticipant r) d =
     store (\<lambda>rows. d\<lparr>session_participants := rows\<rparr>)
       (put_row (participant_columns r) participant_keys (participant_fks d r)
          (session_participants d) r)"
| "exec (InsertAnswer r) d =
     store (\<lambda>rows. d\<lparr>session_answers := rows\<rparr>)
       (put_row (answer_columns r) answer_keys (answer_fks d r) (session_answers d) r)"
| "exec (InsertAggregate r) d =
     store (\<lambda>rows. d\<lparr>session_stats_aggregate := rows\<rparr>)
       (put_row (aggregate_columns r) aggregate_keys (aggregate_fks d r)
          (session_stats_aggregate d) r)"
| "exec (UpdateQuestion r) d =
     (if qq_id r \<notin> qq_id ` set (quiz_questions d) then Inr d
      else store (\<lambda>rows. d\<lparr>quiz_questions := rows\<rparr>)
             (put_row (question_columns r) question_keys []
                (others_of qq_id (qq_id r) (quiz_questions d)) r))"
| "exec (UpdateQuizAnswer r) d =
     (if qa_id r \<notin> qa_id ` set (quiz_answers d) then Inr d
      else store (\<lambda>rows. d\<lparr>quiz_answers := rows\<rparr>)
             (put_row (quiz_answer_columns r) quiz_answer_keys (quiz_answer_fks d r)
                (others_of qa_id (qa_id r) (quiz_answers d)) r))"
| "exec (UpdateSession r) d =
     (if gs_id r \<notin> gs_id ` set (game_sessions d) then Inr d
      else store (\<lambda>rows. d\<lparr>game_sessions := rows\<rparr>)
             (put_row (session_columns r) session_keys []
                (others_of gs_id (gs_id r) (game_sessions d)) r))"
| "exec (UpdateParticipant r) d =
     (if sp_id r \<notin> sp_id ` set (session_participants d) then Inr d
      else store (\<lambda>rows. d\<lparr>session_participants := rows\<rparr>)
             (put_row (participant_columns r) participant_keys (participant_fks d r)
                (others_of sp_id (sp_id r) (session_participants d)) r))"
| "exec (UpdateAnswer r) d =
     (if sa_id r \<notin> sa_id ` set (session_answers d) then Inr d
      else store (\<lambda>rows. d\<lparr>session_answers := rows\<rparr>)
             (put_row (answer_columns r) answer_keys (answer_fks d r)
                (others_of sa_id (sa_id r) (session_answers d)) r))"
| "exec (UpdateAggregate r) d =
     (if ag_id r \<notin> ag_id ` set (session_stats_aggregate d) then Inr d
      else store (\<lambda>rows. d\<lparr>session_stats_aggregate := rows\<rparr>)
             (put_row (aggregate_columns r) aggregate_keys (aggregate_fks d r)
                (others_of ag_id (ag_id r) (session_stats_aggregate d)) r))"
| "exec (DeleteQuestion i) d =
     Inr (d\<lparr>quiz_questions := others_of qq_id i (quiz_questions d),
            quiz_answers := others_of qa_question_id i (quiz_answers d),
            session_answers := others_of sa_question_id i (session_answers d)\<rparr>)"
| "exec (DeleteQuizAnswer i) d =
     Inr (d\<lparr>quiz_answers := others_of qa_id i (quiz_answers d)\<rparr>)"
| "exec (DeleteSession i) d =
     (let gone = sp_id ` set (filter (\<lambda>p. sp_session_id p = i) (session_participants d)) in
      Inr (d\<lparr>game_sessions := others_of gs_id i (game_sessions d),
             session_participants := others_of sp_session_id i (session_participants d),
             session_answers :=
               filter (\<lambda>a. sa_session_id a \<noteq> i \<and> sa_participant_id a \<notin> gone)
                 (session_answers d),
             session_stats_aggregate :=
               filter (\<lambda>a. ag_session_id a \<noteq> i
                            \<and> (case ag_participant_id a of None \<Rightarrow> True | Some p \<Rightarrow> p \<notin> gone))
                 (session_stats_aggregate d)\<rparr>))"
| "exec (DeleteParticipant i) d =
     Inr (d\<lparr>session_participants := others_of sp_id i (session_participants d),
            session_answers := others_of sa_participant_id i (session_answers d),
            session_stats_aggregate :=
              filter (\<lambda>a. ag_participant_id a \<noteq> Some i) (session_stats_aggregate d)\<rparr>)"
| "exec (DeleteAnswer i) d =
     Inr (d\<lparr>session_answers := others_of sa_id i (session_answers d)\<rparr>)"
| "exec (DeleteAggregate i) d =
     Inr (d\<lparr>session_stats_aggregate := others_of ag_id i (session_stats_aggregate d)\<rparr>)"

text \<open>A script of statements stops at the first error.\<close>

fun exec_all :: "sql_stmt list \<Rightarrow> db \<Rightarrow> sql_error + db" where
  "exec_all [] d = Inr d"
| "exec_all (s # ss) d = (case exec s d of Inl e \<Rightarrow> Inl e | Inr d' \<Rightarrow> exec_all ss d')"

text \<open>The states the schema lets the storage reach: from the empty tables, by statements that succeed.\<close>

inductive reachable :: "db \<Rightarrow> bool" where
  reachable_empty: "reachable empty_db"
| reachable_exec: "reachable d \<Longrightarrow> exec s d = Inr d' \<Longrightarrow> reachable d'"

text \<open>Sample rows: one quiz question, one session, two students, answers and aggregates.\<close>

definition sample_question :: "string \<Rightarrow> question_row" where
  "sample_question type_name =
     \<lparr>qq_id = 1, qq_quiz_id = 1, qq_external_id = ''q1'', qq_q_type = type_name,
      qq_prompt = ''Which?'', qq_position = 0\<rparr>"

definition sample_session :: "string \<Rightarrow> session_row" where
  "sample_session game_mode =
     \<lparr>gs_id = 1, gs_room_code = ''ABCDEF'',
      gs_join_token = ''0b0e6c1e-7f0a-4c57-9a55-3c1d2e4f5a6b'',
      gs_quiz_id = 1, gs_teacher_id = 1, gs_status = ''waiting'', gs_game_mode = game_mode,
      gs_started_at = None, gs_ended_at = None, gs_created_at = 0\<rparr>"

definition sample_participant :: "int \<Rightarrow> string \<Rightarrow> participant_row" where
  "sample_participant i nickname =
     \<lparr>sp_id = i, sp_session_id = 1, sp_nickname = nickname, sp_join_state = ''waiting'',
      sp_connected_at = 0, sp_left_at = None\<rparr>"

definition sample_answer :: "int \<Rightarrow> int \<Rightarrow> int \<Rightarrow> answer_row" where
  "sample_answer i participant attempt =
     \<lparr>sa_id = i, sa_session_id = 1, sa_participant_id = participant, sa_question_id = 1,
      sa_attempt_no = attempt, sa_answer_payload = JObj [(''optionId'', JStr ''o1'')],
      sa_is_correct = False, sa_answered_at = 0\<rparr>"

definition sample_aggregate :: "int \<Rightarrow> int option \<Rightarrow> aggregate_row" where
  "sample_aggregate i participant =
     \<lparr>ag_id = i, ag_session_id = 1, ag_participant_id = participant, ag_correct_count = 0,
      ag_wrong_count = 0, ag_correct_pct = 0, ag_updated_at = 0\<rparr>"

definition sample_script :: "sql_stmt list" where
  "sample_script =
     [InsertQuestion (sample_question ''single''),
      InsertSession (sample_session ''platformer''),
      InsertParticipant (sample_participant 1 ''alice''),
      InsertParticipant (sample_participant 2 ''bob''),
      InsertAnswer (sample_answer 1 1 1),
      InsertAnswer (sample_answer 2 1 2),
      InsertAnswer (sample_answer 3 2 1)]"

definition sample_db :: db where
  "sample_db =
     \<lparr>quiz_questions = [sample_question ''single''],
      quiz_answers = [],
      game_sessions = [sample_session ''platformer''],
      session_participants = [sample_participant 1 ''alice'', sample_participant 2 ''bob''],
      session_answers = [sample_answer 1 1 1, sample_answer 2 1 2, sample_answer 3 2 1],
      session_stats_aggregate = []\<rparr>"

text \<open>
  The two unique keys hold in a state when its answer rows have pairwise
  different keys and its participant rows have pairwise different keys.
\<close>

definition keys_distinct :: "db \<Rightarrow> bool" where
  "keys_distinct d = (distinct (map answer_uk (session_answers d))
                     \<and> distinct (map participant_uk (session_participants d)))"

subsection \<open>The answer grader\<close>

text \<open>
  Modelled from the spec: the grader is part of the backend, which is not among the
  sources. The spec (section 4.1) gives it as a pure function from a question and a
  submitted payload, one of \<^verbatim>\<open>{text}\<close>, \<^verbatim>\<open>{optionId}\<close>, \<^verbatim>\<open>{optionIds}\<close> (the shapes of
  \<^verbatim>\<open>AnswerKey\<close>), to a verdict. The spec does not say which characters are white space,
  nor how a string is lowercased: both are parameters, \<open>ws\<close> and \<open>lower\<close>.
\<close>

datatype verdict = Correct | Incorrect | Malformed

text \<open>Trimming: white space off both ends.\<close>

definition trim_by :: "(char \<Rightarrow> bool) \<Rightarrow> string \<Rightarrow> string" where
  "trim_by ws s = rev (dropWhile ws (rev (dropWhile ws s)))"

text \<open>Collapsing: each run of white space becomes one space.\<close>

function collapse :: "(char \<Rightarrow> bool) \<Rightarrow> string \<Rightarrow> string" where
  "collapse ws [] = []"
| "collapse ws (c # cs) =
     (if ws c then CHR '' '' # collapse ws (dropWhile ws cs) else c # collapse ws cs)"
  by pat_completeness auto
termination
  by (relation "measure (\<lambda>(ws, s). length s)") (auto simp: length_dropWhile_le less_Suc_eq_le)

text \<open>The fixed punctuation set: full stop, comma, \<open>!\<close>, \<open>?\<close>, \<open>;\<close>, \<open>:\<close>, double and single quote.\<close>

definition punctuation :: "char list" where
  "punctuation = [CHR ''.'', CHR '','', CHR ''!'', CHR ''?'', CHR '';'', CHR '':'', CHR 0x22, CHR 0x27]"

definition strip_punctuation :: "string \<Rightarrow> string" where
  "strip_punctuation s = filter (\<lambda>c. c \<notin> set punctuation) s"

text \<open>
  Normalising, in the order the spec lists the steps: trim, collapse, lowercase, strip
  the punctuation.
\<close>

definition normalise :: "(char \<Rightarrow> bool) \<Rightarrow> (string \<Rightarrow> string) \<Rightarrow> string \<Rightarrow> string" where
  "normalise ws lower s = strip_punctuation (lower (collapse ws (trim_by ws s)))"

text \<open>
  The rules: \<^verbatim>\<open>open\<close> compares the two normalised texts; \<^verbatim>\<open>single\<close> compares the ids;
  \<^verbatim>\<open>multi\<close> compares the ids as sets, an empty submission being incorrect; a payload
  of another shape than the question's type is malformed. Against a key of another shape
  than the question's type no submission is correct.
\<close>

definition grade ::
  "(char \<Rightarrow> bool) \<Rightarrow> (string \<Rightarrow> string) \<Rightarrow> Question \<Rightarrow> AnswerKey \<Rightarrow> verdict" where
  "grade ws lower q submitted =
     (case q_type q of
        Open \<Rightarrow>
          (case submitted of
             KeyText t \<Rightarrow>
               (case q_answer q of
                  KeyText k \<Rightarrow>
                    if normalise ws lower t = normalise ws lower k then Correct else Incorrect
                | _ \<Rightarrow> Incorrect)
           | _ \<Rightarrow> Malformed)
      | Single \<Rightarrow>
          (case submitted of
             KeyOptionId i \<Rightarrow> if q_answer q = KeyOptionId i then Correct else Incorrect
           | _ \<Rightarrow> Malformed)
      | Multi \<Rightarrow>
          (case submitted of
             KeyOptionIds ids \<Rightarrow>
               (case q_answer q of
                  KeyOptionIds ks \<Rightarrow>
                    if ids \<noteq> [] \<and> set ids = set ks then Correct else Incorrect
                | _ \<Rightarrow> Incorrect)
           | _ \<Rightarrow> Malformed))"

text \<open>
  A question of the data model (spec, section 3): its key has the shape of its type, and
  the key of a \<^verbatim>\<open>multi\<close> question is not empty.
\<close>

definition question_wf :: "Question \<Rightarrow> bool" where
  "question_wf q =
     (case q_type q of
        Open \<Rightarrow> (case q_answer q of KeyText k \<Rightarrow> True | _ \<Rightarrow> False)
      | Single \<Rightarrow> (case q_answer q of KeyOptionId i \<Rightarrow> True | _ \<Rightarrow> False)
      | Multi \<Rightarrow> (case q_answer q of KeyOptionIds ks \<Rightarrow> ks \<noteq> [] | _ \<Rightarrow> False))"

text \<open>ASCII white space and ASCII lowercasing, to run the grader on concrete questions.\<close>

definition ascii_space :: "char \<Rightarrow> bool" where
  "ascii_space c = (c \<in> set [CHR 0x09, CHR 0x0A, CHR 0x0B, CHR 0x0C, CHR 0x0D, CHR '' ''])"

definition ascii_lower :: "string \<Rightarrow> string" where
  "ascii_lower s =
     map (\<lambda>c. case map_of (zip ''ABCDEFGHIJKLMNOPQRSTUVWXYZ'' ''abcdefghijklmnopqrstuvwxyz'') c of
                 None \<Rightarrow> c
               | Some l \<Rightarrow> l) s"

definition sample_open_question :: Question where
  "sample_open_question =
     \<lparr>q_id = ''q2'', q_type = Open, q_prompt = ''Capital of France?'', q_options = None,
      q_answer = KeyText ''Paris''\<rparr>"

definition scenario_multi_question :: Question where
  "scenario_multi_question =
     \<lparr>q_id = ''q1'', q_type = Multi, q_prompt = ''Which two?'',
      q_options = Some [\<lparr>opt_id = ''o1'', opt_text = ''a''\<rparr>, \<lparr>opt_id = ''o2'', opt_text = ''b''\<rparr>,
                        \<lparr>opt_id = ''o3'', opt_text = ''c''\<rparr>, \<lparr>opt_id = ''o4'', opt_text = ''d''\<rparr>],
      q_answer = KeyOptionIds [''o2'', ''o4'']\<rparr>"

section \<open>Theorems\<close>

subsection \<open>The 900 ms throttle of the game canvas\<close>

lemma onMessage_last_mono:
  "onMessage m now data lastEmit = (lastEmit', out) \<Longrightarrow> lastEmit \<le> lastEmit'"
  by (auto simp: onMessage_def split: option.splits if_splits)

lemma onMessage_trigger_time:
  "onMessage m now data lastEmit = (lastEmit', Some r) \<Longrightarrow> lastEmit' = now \<and> lastEmit + 900 \<le> now"
  by (auto simp: onMessage_def split: option.splits if_splits)

lemma canvas_run_length: "length (canvas_run m lastEmit evs) = length evs"
  by (induction evs arbitrary: lastEmit) (auto split: prod.splits)

lemma canvas_run_after_last:
  "j < length evs \<Longrightarrow> canvas_run m lastEmit evs ! j = Some r \<Longrightarrow> lastEmit + 900 \<le> fst (evs ! j)"
proof (induction evs arbitrary: lastEmit j)
  case Nil
  then show ?case by simp
next
  case (Cons ev evs)
  obtain now data where ev: "ev = (now, data)" by (cases ev)
  obtain lastEmit' out where step: "onMessage m now data lastEmit = (lastEmit', out)"
    by (cases "onMessage m now data lastEmit")
  show ?case
  proof (cases j)
    case 0
    with Cons.prems ev step have "out = Some r" by simp
    with step have "lastEmit + 900 \<le> now" using onMessage_trigger_time by blast
    with 0 ev show ?thesis by simp
  next
    case (Suc k)
    with Cons.prems ev step have "k < length evs" "canvas_run m lastEmit' evs ! k = Some r"
      by simp_all
    then have "lastEmit' + 900 \<le> fst (evs ! k)" by (rule Cons.IH)
    moreover have "lastEmit \<le> lastEmit'" using step by (rule onMessage_last_mono)
    ultimately show ?thesis using Suc by simp
  qed
qed

lemma canvas_run_spacing:
  "i < j \<Longrightarrow> j < length evs \<Longrightarrow> canvas_run m lastEmit evs ! i = Some r
     \<Longrightarrow> canvas_run m lastEmit evs ! j = Some r' \<Longrightarrow> fst (evs ! i) + 900 \<le> fst (evs ! j)"
proof (induction evs arbitrary: lastEmit i j)
  case Nil
  then show ?case by simp
next
  case (Cons ev evs)
  obtain now data where ev: "ev = (now, data)" by (cases ev)
  obtain lastEmit' out where step: "onMessage m now data lastEmit = (lastEmit', out)"
    by (cases "onMessage m now data lastEmit")
  from Cons.prems(1) obtain k where j: "j = Suc k" by (cases j) auto
  with Cons.prems ev step have k: "k < length evs" "canvas_run m lastEmit' evs ! k = Some r'"
    by simp_all
  show ?case
  proof (cases i)
    case 0
    with Cons.prems ev step have "out = Some r" by simp
    with step have "lastEmit' = now" using onMessage_trigger_time by blast
    moreover from k have "lastEmit' + 900 \<le> fst (evs ! k)" by (rule canvas_run_after_last)
    ultimately show ?thesis using 0 j ev by simp
  next
    case (Suc i')
    with Cons.prems ev step j have "i' < k" "canvas_run m lastEmit' evs ! i' = Some r"
      by simp_all
    with k have "fst (evs ! i') + 900 \<le> fst (evs ! k)" using Cons.IH by blast
    with Suc j show ?thesis by simp
  qed
qed

text \<open>
  C9, as the code has it. Of the \<^verbatim>\<open>message\<close> events a mounted game canvas receives,
  two that both invoke the question trigger are at least 900 ms apart on the clock the
  listener reads: a second trigger is never emitted within 900 ms of the previously
  emitted one. The clock need not be monotone.
\<close>

theorem canvas_throttle_900:
  "i < j \<Longrightarrow> j < length evs \<Longrightarrow> canvas_triggers m evs ! i = Some r
     \<Longrightarrow> canvas_triggers m evs ! j = Some r' \<Longrightarrow> fst (evs ! i) + 900 \<le> fst (evs ! j)"
  unfolding canvas_triggers_def by (rule canvas_run_spacing)

theorem canvas_throttle_900_witness:
  "(0::nat) < 2
   \<and> 2 < length [(1000000, Some death_msg), (1000500, Some death_msg), (1001000, Some death_msg)]
   \<and> canvas_triggers Platformer
        [(1000000, Some death_msg), (1000500, Some death_msg), (1001000, Some death_msg)] ! 0
      = Some Death
   \<and> canvas_triggers Platformer
        [(1000000, Some death_msg), (1000500, Some death_msg), (1001000, Some death_msg)] ! 2
      = Some Death
   \<and> fst ([(1000000, Some death_msg), (1000500, Some death_msg), (1001000, Some death_msg)] ! 0)
        + 900
      \<le> fst ([(1000000::int, Some death_msg), (1000500, Some death_msg), (1001000, Some death_msg)] ! 2)"
  using canvas_throttle_900 [of 0 2
      "[(1000000, Some death_msg), (1000500, Some death_msg), (1001000, Some death_msg)]"
      Platformer Death Death]
  by (simp add: canvas_triggers_def onMessage_def death_msg_def)

text \<open>
  Of two events fewer than 900 ms apart it need not be the first that invokes the
  trigger. Three deaths at intervals of 500 ms: the second is suppressed, and the third,
  500 ms after the second, invokes the trigger. A level-up, then a death 500 ms after
  it: neither invokes the trigger.
\<close>

theorem throttle_later_of_pair_triggers:
  "(1001000::int) - 1000500 < 900
   \<and> canvas_triggers Platformer
        [(1000000, Some death_msg), (1000500, Some death_msg), (1001000, Some death_msg)]
      = [Some Death, None, Some Death]
   \<and> canvas_triggers Shooter [(1000000, Some level_up_msg), (1000500, Some death_msg)]
      = [None, None]"
  by (simp add: canvas_triggers_def onMessage_def death_msg_def level_up_msg_def)

subsection \<open>Game events and question requests\<close>




subsection \<open>Malformed frames on the room connection\<close>

lemma socket_onmessage_result:
  "socket_onmessage json_parse handler data st
     = Returned (case json_parse data of
                   None \<Rightarrow> st
                 | Some v \<Rightarrow> (case handler v st of Returned st' \<Rightarrow> st' | Threw st' \<Rightarrow> st'))"
  by (simp add: socket_onmessage_def onmessage_try_def split: option.splits completion.splits)

lemma socket_receive_result:
  "socket_receive json_parse handler frames st
     = Returned (foldl (\<lambda>s v. case handler v s of Returned s' \<Rightarrow> s' | Threw s' \<Rightarrow> s') st
                   (List.map_filter json_parse frames))"
proof (induction frames arbitrary: st)
  case Nil
  show ?case by simp
next
  case (Cons data frames)
  show ?case
    by (cases "json_parse data") (simp_all add: socket_onmessage_result Cons.IH)
qed

text \<open>
  C10. A frame whose text \<^verbatim>\<open>JSON.parse\<close> rejects leaves the callback by a normal
  return with the state as it was, whatever the handler is (the handler is not invoked),
  and the frames after it are handled as if it had never arrived. A frame that parses
  has the handler run on the parsed value, and the callback returns normally with the
  state the handler left, also when the handler threw. So over any sequence of frames no
  exception gets out of the callback, and the state at the end is that of running the
  handler on exactly the frames that parse, in order.
\<close>

theorem malformed_frame_ignored:
  "(json_parse data = None
      \<longrightarrow> socket_onmessage json_parse handler data st = Returned st
          \<and> socket_receive json_parse handler (data # frames) st
            = socket_receive json_parse handler frames st)
   \<and> (json_parse data = Some v
      \<longrightarrow> socket_onmessage json_parse handler data st
          = Returned (case handler v st of Returned st' \<Rightarrow> st' | Threw st' \<Rightarrow> st'))
   \<and> socket_receive json_parse handler frames st
       = Returned (foldl (\<lambda>s v. case handler v s of Returned s' \<Rightarrow> s' | Threw s' \<Rightarrow> s') st
                     (List.map_filter json_parse frames))"
  by (simp add: socket_onmessage_result socket_receive_result)

theorem malformed_frame_ignored_witness:
  "sample_parse ''{oops'' = None
   \<and> socket_onmessage sample_parse sample_handler ''{oops'' [] = Returned []
   \<and> socket_receive sample_parse sample_handler [''{oops'', ''{}'', ''null'', ''{}''] []
     = socket_receive sample_parse sample_handler [''{}'', ''null'', ''{}''] []
   \<and> sample_parse ''null'' = Some JNull
   \<and> socket_onmessage sample_parse sample_handler ''null'' [JObj []] = Returned [JObj [], JNull]
   \<and> socket_receive sample_parse sample_handler [''{oops'', ''{}'', ''null'', ''{}''] []
     = Returned [JObj [], JNull, JObj []]"
  using malformed_frame_ignored [of sample_parse "''{oops''" sample_handler "[]"
      "[''{}'', ''null'', ''{}'']" JNull]
    malformed_frame_ignored [of sample_parse "''null''" sample_handler "[JObj []]"
      "[''{oops'', ''{}'', ''null'', ''{}'']" JNull]
  by (simp add: sample_parse_def sample_handler_def socket_onmessage_def onmessage_try_def)

subsection \<open>The round trip of an outbound envelope\<close>


subsection \<open>The payload of the answer card\<close>

lemma card_step_multi_inv:
  "distinct (cs_multi st) \<Longrightarrow> set (cs_multi st) \<subseteq> opt_id ` set (card_options q)
     \<Longrightarrow> distinct (cs_multi (card_step q st a))
         \<and> set (cs_multi (card_step q st a)) \<subseteq> opt_id ` set (card_options q)"
proof (cases a)
  case (ClickMulti i)
  assume inv: "distinct (cs_multi st)" "set (cs_multi st) \<subseteq> opt_id ` set (card_options q)"
  show ?thesis
  proof (cases "q_type q = Multi \<and> i < length (card_options q)")
    case True
    then have "opt_id (card_options q ! i) \<in> opt_id ` set (card_options q)"
      by simp
    with inv True ClickMulti show ?thesis
      by (auto simp: multi_onChange_def)
  next
    case False
    with inv ClickMulti show ?thesis by auto
  qed
qed auto

lemma card_foldl_multi_inv:
  "distinct (cs_multi st) \<Longrightarrow> set (cs_multi st) \<subseteq> opt_id ` set (card_options q)
     \<Longrightarrow> distinct (cs_multi (foldl (card_step q) st acts))
         \<and> set (cs_multi (foldl (card_step q) st acts)) \<subseteq> opt_id ` set (card_options q)"
proof (induction acts arbitrary: st)
  case Nil
  then show ?case by simp
next
  case (Cons a acts)
  from Cons.prems have "distinct (cs_multi (card_step q st a))
      \<and> set (cs_multi (card_step q st a)) \<subseteq> opt_id ` set (card_options q)"
    by (rule card_step_multi_inv)
  then show ?case using Cons.IH [of "card_step q st a"] by simp
qed

lemma card_step_distinct: "distinct (cs_multi st) \<Longrightarrow> distinct (cs_multi (card_step q st a))"
  by (cases a) (auto simp: multi_onChange_def)

lemma card_foldl_distinct:
  "distinct (cs_multi st) \<Longrightarrow> distinct (cs_multi (foldl (card_step q) st acts))"
  by (induction acts arbitrary: st) (simp_all add: card_step_distinct)

lemma card_shown_distinct:
  "distinct (cs_multi st)
     \<Longrightarrow> distinct (cs_multi (foldl (\<lambda>st (q, acts). foldl (card_step q) st acts) st shown))"
  by (induction shown arbitrary: st) (auto simp: card_foldl_distinct)

lemma card_session_distinct: "distinct (cs_multi (card_session shown))"
  unfolding card_session_def by (rule card_shown_distinct) (simp add: card_init_def)

text \<open>
  C8, as the code has it. For every question the card shows, whatever it has shown and
  the student has done before, the payload submitted has the shape of the question's
  type: \<^verbatim>\<open>{text}\<close> for \<^verbatim>\<open>open\<close>, \<^verbatim>\<open>{optionId}\<close> for \<^verbatim>\<open>single\<close>, \<^verbatim>\<open>{optionIds}\<close>
  for \<^verbatim>\<open>multi\<close>, and the ids of a \<^verbatim>\<open>multi\<close> submission are pairwise different. When
  the card has shown only that question since it was mounted, the ids of a \<^verbatim>\<open>multi\<close>
  submission are ids of the question's own options.
\<close>

theorem card_payload_shape:
  "(q_type q = Open
      \<longrightarrow> card_submit q (card_session (shown @ [(q, acts)]))
          = [(''text'', JStr (cs_open (card_session (shown @ [(q, acts)]))))])
   \<and> (q_type q = Single
      \<longrightarrow> card_submit q (card_session (shown @ [(q, acts)]))
          = [(''optionId'', JStr (cs_single (card_session (shown @ [(q, acts)]))))])
   \<and> (q_type q = Multi
      \<longrightarrow> card_submit q (card_session (shown @ [(q, acts)]))
            = [(''optionIds'', JArr (map JStr (cs_multi (card_session (shown @ [(q, acts)])))))]
          \<and> distinct (cs_multi (card_session (shown @ [(q, acts)]))))
   \<and> (q_type q = Multi
      \<longrightarrow> set (cs_multi (card_session [(q, acts)])) \<subseteq> opt_id ` set (card_options q))"
proof -
  have "distinct (cs_multi (foldl (card_step q) card_init acts))
      \<and> set (cs_multi (foldl (card_step q) card_init acts)) \<subseteq> opt_id ` set (card_options q)"
    by (rule card_foldl_multi_inv) (simp_all add: card_init_def)
  then have "set (cs_multi (card_session [(q, acts)])) \<subseteq> opt_id ` set (card_options q)"
    by (simp add: card_session_def)
  then show ?thesis
    using card_session_distinct [of "shown @ [(q, acts)]"] by (simp add: card_submit_def)
qed

theorem card_payload_shape_witness:
  "q_type sample_next_question = Multi
   \<and> card_submit sample_next_question
        (card_session [(sample_multi_question, [ClickMulti 0]),
                       (sample_next_question, [ClickMulti 1, ClickMulti 0, ClickMulti 1])])
      = [(''optionIds'', JArr [JStr ''o1'', JStr ''b1''])]
   \<and> distinct (cs_multi
        (card_session [(sample_multi_question, [ClickMulti 0]),
                       (sample_next_question, [ClickMulti 1, ClickMulti 0, ClickMulti 1])]))
   \<and> cs_multi (card_session [(sample_next_question, [ClickMulti 1, ClickMulti 0, ClickMulti 1])])
      = [''b1'']
   \<and> set (cs_multi
        (card_session [(sample_next_question, [ClickMulti 1, ClickMulti 0, ClickMulti 1])]))
      \<subseteq> opt_id ` set (card_options sample_next_question)"
  using card_payload_shape [of sample_next_question "[(sample_multi_question, [ClickMulti 0])]"
      "[ClickMulti 1, ClickMulti 0, ClickMulti 1]"]
  by (simp add: sample_multi_question_def sample_next_question_def card_session_def
      card_init_def card_options_def card_submit_def multi_onChange_def)

text \<open>
  A card that shows a second question without having been unmounted: the box ticked for
  the first question is submitted for the second, which has no option of that id.
\<close>

theorem stale_multi_ids:
  "card_submit sample_next_question
     (card_session [(sample_multi_question, [ClickMulti 0]), (sample_next_question, [])])
     = [(''optionIds'', JArr [JStr ''o1''])]
   \<and> ''o1'' \<notin> opt_id ` set (card_options sample_next_question)"
  by (simp add: sample_multi_question_def sample_next_question_def card_session_def
      card_init_def card_options_def card_submit_def multi_onChange_def)

subsection \<open>The unique keys of the storage schema\<close>

lemma put_row_Inr:
  assumes "put_row columns keys fks others r = Inr rows"
  shows "rows = others @ [r]" and "\<And>name key. (name, key) \<in> set keys \<Longrightarrow> uk_free key others r"
proof -
  from assms have c: "find (\<lambda>(name, fits). \<not> fits) columns = None"
    by (auto simp: put_row_def split: option.splits)
  from assms c have k: "find (\<lambda>(name, key). \<not> uk_free key others r) keys = None"
    by (auto simp: put_row_def split: option.splits)
  from assms c k show "rows = others @ [r]"
    by (auto simp: put_row_def split: option.splits)
  fix name key assume "(name, key) \<in> set keys"
  with k show "uk_free key others r" by (auto simp: find_None_iff)
qed

lemma uk_free_fresh:
  "uk_free key others r \<Longrightarrow> (\<And>x. SqlNull \<notin> set (key x)) \<Longrightarrow> key r \<notin> key ` set others"
  by (auto simp: uk_free_def uk_conflict_def list_ex_iff)

lemma distinct_put:
  assumes "put_row columns keys fks (filter P rows0) r = Inr rows"
    and "(name, key) \<in> set keys" and "\<And>x. SqlNull \<notin> set (key x)"
    and "distinct (map key rows0)"
  shows "distinct (map key rows)"
proof -
  from assms(1) have rows: "rows = filter P rows0 @ [r]" by (rule put_row_Inr(1))
  from assms(1,2) have "uk_free key (filter P rows0) r" by (rule put_row_Inr(2))
  then have "key r \<notin> key ` set (filter P rows0)" using assms(3) by (rule uk_free_fresh)
  moreover from assms(4) have "distinct (map key (filter P rows0))" by (rule distinct_map_filter)
  ultimately show ?thesis using rows by simp
qed

lemma distinct_put_all:
  assumes "put_row columns keys fks rows0 r = Inr rows"
    and "(name, key) \<in> set keys" and "\<And>x. SqlNull \<notin> set (key x)"
    and "distinct (map key rows0)"
  shows "distinct (map key rows)"
  using distinct_put [of columns keys fks "\<lambda>x. True" rows0 r rows name key] assms by simp


lemma answer_uk_key: "(''uk_session_answers_attempt'', answer_uk) \<in> set answer_keys"
  by (simp add: answer_keys_def)

lemma participant_uk_key: "(''uk_session_participants'', participant_uk) \<in> set participant_keys"
  by (simp add: participant_keys_def)

lemma answer_uk_no_null: "SqlNull \<notin> set (answer_uk x)"
  by (simp add: answer_uk_def)

lemma participant_uk_no_null: "SqlNull \<notin> set (participant_uk x)"
  by (simp add: participant_uk_def)

lemma store_Inr: "store upd res = Inr d' \<Longrightarrow> \<exists>rows. res = Inr rows \<and> d' = upd rows"
  by (cases res) (simp_all add: store_def)

lemma exec_keys_distinct:
  assumes "keys_distinct d" and "exec s d = Inr d'"
  shows "keys_distinct d'"
proof (cases s)
  case (InsertParticipant r)
  with assms(2) obtain rows where
    "put_row (participant_columns r) participant_keys (participant_fks d r) (session_participants d) r = Inr rows"
    "d' = d\<lparr>session_participants := rows\<rparr>"
    by (auto dest: store_Inr)
  with assms(1) show ?thesis
    using distinct_put_all [OF _ participant_uk_key participant_uk_no_null]
    by (auto simp: keys_distinct_def)
next
  case (InsertAnswer r)
  with assms(2) obtain rows where
    "put_row (answer_columns r) answer_keys (answer_fks d r) (session_answers d) r = Inr rows"
    "d' = d\<lparr>session_answers := rows\<rparr>"
    by (auto dest: store_Inr)
  with assms(1) show ?thesis
    using distinct_put_all [OF _ answer_uk_key answer_uk_no_null]
    by (auto simp: keys_distinct_def)
next
  case (UpdateParticipant r)
  show ?thesis
  proof (cases "sp_id r \<in> sp_id ` set (session_participants d)")
    case False
    with assms UpdateParticipant show ?thesis by simp
  next
    case True
    with assms(2) UpdateParticipant obtain rows where
      "put_row (participant_columns r) participant_keys (participant_fks d r)
         (filter (\<lambda>x. sp_id x \<noteq> sp_id r) (session_participants d)) r = Inr rows"
      "d' = d\<lparr>session_participants := rows\<rparr>"
      by (auto dest: store_Inr simp: others_of_def)
    with assms(1) show ?thesis
      using distinct_put [OF _ participant_uk_key participant_uk_no_null]
      by (auto simp: keys_distinct_def)
  qed
next
  case (UpdateAnswer r)
  show ?thesis
  proof (cases "sa_id r \<in> sa_id ` set (session_answers d)")
    case False
    with assms UpdateAnswer show ?thesis by simp
  next
    case True
    with assms(2) UpdateAnswer obtain rows where
      "put_row (answer_columns r) answer_keys (answer_fks d r)
         (filter (\<lambda>x. sa_id x \<noteq> sa_id r) (session_answers d)) r = Inr rows"
      "d' = d\<lparr>session_answers := rows\<rparr>"
      by (auto dest: store_Inr simp: others_of_def)
    with assms(1) show ?thesis
      using distinct_put [OF _ answer_uk_key answer_uk_no_null]
      by (auto simp: keys_distinct_def)
  qed
next
  case (InsertQuestion r)
  with assms show ?thesis by (auto simp: keys_distinct_def dest!: store_Inr)
next
  case (InsertQuizAnswer r)
  with assms show ?thesis by (auto simp: keys_distinct_def dest!: store_Inr)
next
  case (InsertSession r)
  with assms show ?thesis by (auto simp: keys_distinct_def dest!: store_Inr)
next
  case (InsertAggregate r)
  with assms show ?thesis by (auto simp: keys_distinct_def dest!: store_Inr)
next
  case (UpdateQuestion r)
  with assms show ?thesis
    by (cases "qq_id r \<in> qq_id ` set (quiz_questions d)")
       (auto simp: keys_distinct_def dest!: store_Inr)
next
  case (UpdateQuizAnswer r)
  with assms show ?thesis
    by (cases "qa_id r \<in> qa_id ` set (quiz_answers d)")
       (auto simp: keys_distinct_def dest!: store_Inr)
next
  case (UpdateSession r)
  with assms show ?thesis
    by (cases "gs_id r \<in> gs_id ` set (game_sessions d)")
       (auto simp: keys_distinct_def dest!: store_Inr)
next
  case (UpdateAggregate r)
  with assms show ?thesis
    by (cases "ag_id r \<in> ag_id ` set (session_stats_aggregate d)")
       (auto simp: keys_distinct_def dest!: store_Inr)
next
  case (DeleteQuestion i)
  with assms show ?thesis
    by (auto simp: keys_distinct_def others_of_def distinct_map_filter)
next
  case (DeleteQuizAnswer i)
  with assms show ?thesis by (auto simp: keys_distinct_def)
next
  case (DeleteSession i)
  with assms show ?thesis
    by (auto simp: keys_distinct_def others_of_def distinct_map_filter Let_def)
next
  case (DeleteParticipant i)
  with assms show ?thesis
    by (auto simp: keys_distinct_def others_of_def distinct_map_filter)
next
  case (DeleteAnswer i)
  with assms show ?thesis
    by (auto simp: keys_distinct_def others_of_def distinct_map_filter)
next
  case (DeleteAggregate i)
  with assms show ?thesis by (auto simp: keys_distinct_def)
qed

lemma reachable_keys_distinct: "reachable d \<Longrightarrow> keys_distinct d"
proof (induction rule: reachable.induct)
  case reachable_empty
  show ?case by (simp add: keys_distinct_def empty_db_def)
next
  case (reachable_exec d s d')
  from reachable_exec.IH reachable_exec.hyps(2) show ?case by (rule exec_keys_distinct)
qed

lemma distinct_map_coarser:
  "distinct (map f xs) \<Longrightarrow> (\<And>x y. g x = g y \<Longrightarrow> f x = f y) \<Longrightarrow> distinct (map g xs)"
proof (induction xs)
  case Nil
  show ?case by simp
next
  case (Cons a xs)
  have "g a \<notin> g ` set xs"
  proof
    assume "g a \<in> g ` set xs"
    then obtain x where x: "x \<in> set xs" "g a = g x" by (elim imageE)
    from x(2) have "f a = f x" by (rule Cons.prems(2))
    with x(1) have "f a \<in> f ` set xs" by simp
    with Cons.prems(1) show False by simp
  qed
  moreover from Cons.prems(1) have "distinct (map f xs)" by simp
  then have "distinct (map g xs)" using Cons.prems(2) by (rule Cons.IH)
  ultimately show ?case by simp
qed

text \<open>
  C6. In every state the storage can reach, no two rows of \<^verbatim>\<open>session_answers\<close> have the
  same session, participant, question and attempt number, and no two rows of
  \<^verbatim>\<open>session_participants\<close> have the same session and nickname.
\<close>

theorem storage_unique_keys:
  "reachable d \<Longrightarrow>
     distinct (map (\<lambda>r. (sa_session_id r, sa_participant_id r, sa_question_id r, sa_attempt_no r))
                 (session_answers d))
     \<and> distinct (map (\<lambda>r. (sp_session_id r, sp_nickname r)) (session_participants d))"
proof -
  assume "reachable d"
  then have kd: "keys_distinct d" by (rule reachable_keys_distinct)
  have "distinct (map (\<lambda>r. (sa_session_id r, sa_participant_id r, sa_question_id r, sa_attempt_no r))
                 (session_answers d))"
    by (rule distinct_map_coarser [of answer_uk]) (use kd in \<open>simp_all add: keys_distinct_def answer_uk_def\<close>)
  moreover have "distinct (map (\<lambda>r. (sp_session_id r, sp_nickname r)) (session_participants d))"
    by (rule distinct_map_coarser [of participant_uk]) (use kd in \<open>simp_all add: keys_distinct_def participant_uk_def\<close>)
  ultimately show ?thesis by simp
qed


lemma exec_all_reachable: "reachable d \<Longrightarrow> exec_all ss d = Inr d' \<Longrightarrow> reachable d'"
proof (induction ss arbitrary: d)
  case Nil
  then show ?case by simp
next
  case (Cons s ss)
  from Cons.prems(2) obtain d1 where d1: "exec s d = Inr d1" "exec_all ss d1 = Inr d'"
    by (cases "exec s d") simp_all
  from Cons.prems(1) d1(1) have "reachable d1" by (rule reachable_exec)
  then show ?case using d1(2) by (rule Cons.IH)
qed

lemmas sample_defs = sample_script_def sample_db_def sample_question_def sample_session_def
  sample_participant_def sample_answer_def sample_aggregate_def empty_db_def
lemmas schema_defs = put_row_def store_def uk_free_def uk_conflict_def others_of_def
  question_columns_def quiz_answer_columns_def session_columns_def participant_columns_def
  answer_columns_def aggregate_columns_def question_keys_def quiz_answer_keys_def session_keys_def
  participant_keys_def answer_keys_def aggregate_keys_def participant_uk_def answer_uk_def
  aggregate_uk_def quiz_answer_fks_def participant_fks_def answer_fks_def aggregate_fks_def
  sql_int_def sql_bigint_def sql_decimal_5_2_def sql_text_def sqlval_of_int_def

lemma sample_db_script: "exec_all sample_script empty_db = Inr sample_db"
  by (simp add: sample_defs schema_defs)

theorem storage_unique_keys_witness:
  "reachable sample_db
   \<and> distinct (map (\<lambda>r. (sa_session_id r, sa_participant_id r, sa_question_id r, sa_attempt_no r))
                 (session_answers sample_db))
   \<and> distinct (map (\<lambda>r. (sp_session_id r, sp_nickname r)) (session_participants sample_db))
   \<and> exec (InsertParticipant (sample_participant 3 ''bob'')) sample_db
       = Inl (DuplicateEntry ''uk_session_participants'')
   \<and> exec (InsertAnswer (sample_answer 4 1 2)) sample_db
       = Inl (DuplicateEntry ''uk_session_answers_attempt'')"
proof -
  have r: "reachable sample_db"
    using reachable_empty sample_db_script by (rule exec_all_reachable)
  have "exec (InsertParticipant (sample_participant 3 ''bob'')) sample_db
       = Inl (DuplicateEntry ''uk_session_participants'')"
    by (simp add: sample_defs schema_defs)
  moreover have "exec (InsertAnswer (sample_answer 4 1 2)) sample_db
       = Inl (DuplicateEntry ''uk_session_answers_attempt'')"
    by (simp add: sample_defs schema_defs)
  ultimately show ?thesis using storage_unique_keys [OF r] r by simp
qed

subsection \<open>The game mode of a session row\<close>

text \<open>
  C1, at the dashboard's default. With no mode selected the dashboard asks for a session
  in mode \<^verbatim>\<open>classic\<close>; the column \<^verbatim>\<open>game_sessions.game_mode\<close> is
  \<^verbatim>\<open>ENUM('platformer', 'shooter', 'tycoon')\<close> and refuses the row, which it takes with
  \<^verbatim>\<open>platformer\<close> in the same place.
\<close>

theorem classic_session_rejected:
  "startSession Map.empty 1 = JObj [(''quizId'', JNum 1), (''gameMode'', JStr ''classic'')]
   \<and> exec (InsertSession (sample_session (mode_text (startSession_mode Map.empty 1)))) empty_db
       = Inl (DataError ''game_mode'')
   \<and> exec (InsertSession (sample_session (mode_text (Game Platformer)))) empty_db
       = Inr (empty_db\<lparr>game_sessions := [sample_session ''platformer'']\<rparr>)"
  by (simp add: startSession_def createSession_def startSession_mode_def sample_defs schema_defs)

subsection \<open>The class row of the aggregate table\<close>

text \<open>
  C5, at two class rows. The unique index of \<^verbatim>\<open>session_stats_aggregate\<close> is on
  \<^verbatim>\<open>(session_id, participant_id)\<close>, and the class row has \<^verbatim>\<open>participant_id\<close>
  \<^verbatim>\<open>NULL\<close>: two class rows of one session do not collide, and both inserts succeed.
\<close>

theorem class_row_duplicated:
  "exec_all [InsertSession (sample_session ''shooter''),
             InsertAggregate (sample_aggregate 1 None),
             InsertAggregate (sample_aggregate 2 None)] empty_db
   = Inr (empty_db\<lparr>game_sessions := [sample_session ''shooter''],
                    session_stats_aggregate := [sample_aggregate 1 None, sample_aggregate 2 None]\<rparr>)"
  by (simp add: sample_defs schema_defs)

subsection \<open>The answer key of a multi question\<close>









subsection \<open>Grading a question against its own key\<close>

lemma trim_by_left: "list_all ws l \<Longrightarrow> trim_by ws (l @ s) = trim_by ws s"
  by (simp add: trim_by_def list_all_iff)

lemma trim_by_right:
  assumes "list_all ws r"
  shows "trim_by ws (s @ r) = trim_by ws s"
proof (cases "list_all ws s")
  case True
  with assms have "dropWhile ws (s @ r) = []" "dropWhile ws s = []"
    by (simp_all add: list_all_iff)
  then show ?thesis by (simp only: trim_by_def)
next
  case False
  then have "\<exists>x\<in>set s. \<not> ws x" by (simp add: list_all_iff)
  then have "dropWhile ws (s @ r) = dropWhile ws s @ r"
    by auto
  moreover from assms have "dropWhile ws (rev r @ rev (dropWhile ws s)) = dropWhile ws (rev (dropWhile ws s))"
    by (intro dropWhile_append2) (simp add: list_all_iff)
  ultimately show ?thesis by (simp add: trim_by_def)
qed

lemma normalise_padded:
  "list_all ws l \<Longrightarrow> list_all ws r \<Longrightarrow> normalise ws lower (l @ k @ r) = normalise ws lower k"
  by (simp add: normalise_def trim_by_left trim_by_right)

text \<open>
  C3. A question of the data model graded against its own answer key is correct; a
  \<^verbatim>\<open>multi\<close> question graded against the ids of its key in reverse order is correct; an
  \<^verbatim>\<open>open\<close> question graded against the text of its key with white space added before
  and after it is correct. This holds whatever counts as white space and however text is
  lowercased.
\<close>

theorem grade_own_key:
  "(question_wf q \<longrightarrow> grade ws lower q (q_answer q) = Correct)
   \<and> (question_wf q \<and> q_type q = Multi \<and> q_answer q = KeyOptionIds ids
        \<longrightarrow> grade ws lower q (KeyOptionIds (rev ids)) = Correct)
   \<and> (question_wf q \<and> q_type q = Open \<and> q_answer q = KeyText k \<and> list_all ws l \<and> list_all ws r
        \<longrightarrow> grade ws lower q (KeyText (l @ k @ r)) = Correct)"
proof -
  have own: "grade ws lower q (q_answer q) = Correct" if "question_wf q"
    using that
    by (cases "q_type q"; cases "q_answer q") (simp_all add: question_wf_def grade_def)
  have reversed: "grade ws lower q (KeyOptionIds (rev ids)) = Correct"
    if "question_wf q" "q_type q = Multi" "q_answer q = KeyOptionIds ids"
    using that by (simp add: question_wf_def grade_def)
  have padded: "grade ws lower q (KeyText (l @ k @ r)) = Correct"
    if "q_type q = Open" "q_answer q = KeyText k" "list_all ws l" "list_all ws r"
    using that by (simp add: grade_def normalise_padded)
  from own reversed padded show ?thesis by blast
qed

lemmas grader_defs = grade_def normalise_def trim_by_def ascii_space_def ascii_lower_def
  strip_punctuation_def punctuation_def

theorem grade_own_key_witness:
  "question_wf scenario_multi_question \<and> q_type scenario_multi_question = Multi
   \<and> q_answer scenario_multi_question = KeyOptionIds [''o2'', ''o4'']
   \<and> grade ascii_space ascii_lower scenario_multi_question (KeyOptionIds [''o2'', ''o4'']) = Correct
   \<and> grade ascii_space ascii_lower scenario_multi_question (KeyOptionIds (rev [''o2'', ''o4'']))
       = Correct
   \<and> grade ascii_space ascii_lower scenario_multi_question (KeyOptionIds [''o2'']) = Incorrect
   \<and> grade ascii_space ascii_lower scenario_multi_question (KeyOptionIds [''o2'', ''o4'', ''o2''])
       = Correct
   \<and> grade ascii_space ascii_lower scenario_multi_question (KeyOptionIds []) = Incorrect
   \<and> grade ascii_space ascii_lower scenario_multi_question (KeyOptionId ''o2'') = Malformed
   \<and> question_wf sample_open_question \<and> q_type sample_open_question = Open
   \<and> q_answer sample_open_question = KeyText ''Paris''
   \<and> list_all ascii_space ''  '' \<and> list_all ascii_space [CHR 0x09, CHR 0x0A]
   \<and> grade ascii_space ascii_lower sample_open_question (KeyText ''Paris'') = Correct
   \<and> grade ascii_space ascii_lower sample_open_question
        (KeyText (''  '' @ ''Paris'' @ [CHR 0x09, CHR 0x0A])) = Correct
   \<and> grade ascii_space ascii_lower sample_open_question (KeyText ''  pARIS. '') = Correct
   \<and> grade ascii_space ascii_lower sample_open_question (KeyText ''London'') = Incorrect"
proof -
  have wf: "question_wf scenario_multi_question" "q_type scenario_multi_question = Multi"
    "q_answer scenario_multi_question = KeyOptionIds [''o2'', ''o4'']"
    "question_wf sample_open_question" "q_type sample_open_question = Open"
    "q_answer sample_open_question = KeyText ''Paris''"
    by (simp_all add: scenario_multi_question_def sample_open_question_def question_wf_def)
  have sp: "list_all ascii_space ''  ''" "list_all ascii_space [CHR 0x09, CHR 0x0A]"
    by (simp_all add: ascii_space_def)
  have m1: "grade ascii_space ascii_lower scenario_multi_question (KeyOptionIds [''o2'']) = Incorrect"
    by (auto simp: grade_def scenario_multi_question_def)
  have m2: "grade ascii_space ascii_lower scenario_multi_question
      (KeyOptionIds [''o2'', ''o4'', ''o2'']) = Correct"
    by (auto simp: grade_def scenario_multi_question_def)
  have m3: "grade ascii_space ascii_lower scenario_multi_question (KeyOptionIds []) = Incorrect"
    "grade ascii_space ascii_lower scenario_multi_question (KeyOptionId ''o2'') = Malformed"
    by (simp_all add: grade_def scenario_multi_question_def)
  have o1: "grade ascii_space ascii_lower sample_open_question (KeyText ''  pARIS. '') = Correct"
    by (simp add: sample_open_question_def grader_defs)
  have o2: "grade ascii_space ascii_lower sample_open_question (KeyText ''London'') = Incorrect"
    by (simp add: sample_open_question_def grader_defs)
  from wf sp m1 m2 m3 o1 o2 show ?thesis
    using grade_own_key [of scenario_multi_question ascii_space ascii_lower "[''o2'', ''o4'']"
        "''Paris''" "''  ''" "[CHR 0x09, CHR 0x0A]"]
      grade_own_key [of sample_open_question ascii_space ascii_lower "[''o2'', ''o4'']"
        "''Paris''" "''  ''" "[CHR 0x09, CHR 0x0A]"]
    by (simp only: simp_thms)
qed

end
